theory Spec2Isabelle
  imports Main
begin

section \<open>Values of the conversion service\<close>

text \<open>
  The model follows \<^verbatim>\<open>src/node-poc/services/converter.js\<close> (class
  \<^verbatim>\<open>ConversionService\<close>). A JavaScript string is a \<^typ>\<open>string\<close> whose
  characters are code units below 256; a \<^verbatim>\<open>Buffer\<close> is the list of its bytes.
\<close>

type_synonym buffer = "char list"

text \<open>
  A cell of a row array. \<^verbatim>\<open>csv-parse\<close> yields strings only. The array of arrays
  that \<^verbatim>\<open>xlsx.utils.sheet_to_json(sheet, {header: 1})\<close> returns holds the cell
  values of the sheet, and an empty cell between two filled ones is a hole of the row array
  (an index below \<^verbatim>\<open>length\<close> with no element). A number or a boolean reaches the
  renderer only through \<^verbatim>\<open>join\<close>, so it is carried as \<open>Str\<close> of its text.
\<close>

datatype cell = Str string | Null | Undefined | Hole

type_synonym row = "cell list"

text \<open>Every failure of the service is a JavaScript \<^verbatim>\<open>Error\<close> carrying a message.\<close>

datatype error = Error string

section \<open>Array operations used by the renderer\<close>

text \<open>
  \<^verbatim>\<open>Array.prototype.join\<close>: \<^verbatim>\<open>null\<close>, \<^verbatim>\<open>undefined\<close> and holes give
  the empty text, every other element its string conversion.
\<close>

fun cell_text :: "cell \<Rightarrow> string" where
  "cell_text (Str s) = s"
| "cell_text Null = []"
| "cell_text Undefined = []"
| "cell_text Hole = []"

fun join :: "string \<Rightarrow> row \<Rightarrow> string" where
  "join sep [] = []"
| "join sep [c] = cell_text c"
| "join sep (c # d # cs) = cell_text c @ sep @ join sep (d # cs)"

text \<open>
  \<^verbatim>\<open>header.map(() => '---')\<close>: \<^verbatim>\<open>Array.prototype.map\<close> calls the function on
  the elements that are present and leaves every hole a hole of the new array.
\<close>

fun map_const_cell :: "string \<Rightarrow> cell \<Rightarrow> cell" where
  "map_const_cell s Hole = Hole"
| "map_const_cell s c = Str s"

definition map_const :: "string \<Rightarrow> row \<Rightarrow> row" where
  "map_const s r = map (map_const_cell s) r"

text \<open>
  \<^verbatim>\<open>[...row]\<close>: the spread iterates the array, and the iterator reads a hole as
  \<^verbatim>\<open>undefined\<close>; the new array has no hole.
\<close>

fun spread_cell :: "cell \<Rightarrow> cell" where
  "spread_cell Hole = Undefined"
| "spread_cell c = c"

definition spread :: "row \<Rightarrow> row" where
  "spread r = map spread_cell r"

section \<open>The table renderer\<close>

text \<open>
  \<^verbatim>\<open>while (paddedRow.length < header.length) { paddedRow.push(''); }\<close>
\<close>

function while_push :: "row \<Rightarrow> row \<Rightarrow> row" where
  "while_push paddedRow header =
     (if length paddedRow < length header
      then while_push (paddedRow @ [Str []]) header
      else paddedRow)"
  by pat_completeness auto
termination
  by (relation "measure (\<lambda>(paddedRow, header). length header - length paddedRow)") auto

text \<open>
  \<^verbatim>\<open>body.forEach(row => { ... markdown += '| ' + paddedRow.join(' | ') + ' |\n'; })\<close>,
  with the accumulated \<^verbatim>\<open>markdown\<close> passed along.
\<close>

fun forEach_row :: "row \<Rightarrow> row list \<Rightarrow> string \<Rightarrow> string" where
  "forEach_row header [] markdown = markdown"
| "forEach_row header (row # body) markdown =
     (let paddedRow = while_push (spread row) header
      in forEach_row header body
           (markdown @ ''| '' @ join '' | '' paddedRow @ '' |\<newline>''))"

text \<open>
  \<^verbatim>\<open>jsonToMarkdownTable(rows)\<close>: the first equation is the guard
  \<^verbatim>\<open>if (!rows || rows.length === 0) return ''\<close>; in the second,
  \<open>header\<close> is \<^verbatim>\<open>rows[0]\<close> and \<open>body\<close> is \<^verbatim>\<open>rows.slice(1)\<close>.
\<close>

fun jsonToMarkdownTable :: "row list \<Rightarrow> string" where
  "jsonToMarkdownTable [] = []"
| "jsonToMarkdownTable (header # body) =
     (let markdown = ''| '' @ join '' | '' header @ '' |\<newline>'';
          markdown = markdown @ ''| '' @ join '' | '' (map_const ''---'' header) @ '' |\<newline>''
      in forEach_row header body markdown)"

section \<open>The parsing libraries\<close>

text \<open>
  The four libraries are outside the repository; the service is modelled over any behaviour
  of theirs. A call either raises, \<open>Inl\<close> of the text that \<^verbatim>\<open>error.message\<close>
  renders in the template string, or returns. A workbook is what \<^verbatim>\<open>xlsx.read\<close>
  returns: \<open>SheetNames\<close> in document order, and \<open>sheet_json wb name\<close> for the call
  \<^verbatim>\<open>xlsx.utils.sheet_to_json(workbook.Sheets[name], {header: 1})\<close>, which returns
  the rows of the sheet or raises as well.
\<close>

record workbook =
  SheetNames :: "string list"
  sheet_json :: "string \<Rightarrow> string + row list"

record libs =
  mammoth_extractRawText :: "buffer \<Rightarrow> string + string"
  pdf :: "buffer \<Rightarrow> string + string"
  xlsx_read :: "buffer \<Rightarrow> string + workbook"
  parse :: "buffer \<Rightarrow> string + row list"

section \<open>The conversion routines\<close>

definition convertDocx :: "libs \<Rightarrow> buffer \<Rightarrow> error + string" where
  "convertDocx L buffer =
     (case mammoth_extractRawText L buffer of
        Inr val \<Rightarrow> Inr val
      | Inl message \<Rightarrow> Inl (Error (''DOCX conversion failed: '' @ message)))"

definition convertPdf :: "libs \<Rightarrow> buffer \<Rightarrow> error + string" where
  "convertPdf L buffer =
     (case pdf L buffer of
        Inr text \<Rightarrow> Inr text
      | Inl message \<Rightarrow> Inl (Error (''PDF conversion failed: '' @ message)))"

text \<open>
  \<^verbatim>\<open>workbook.SheetNames.forEach(sheetName => { ... })\<close> of \<^verbatim>\<open>convertXlsx\<close>,
  with the accumulated \<^verbatim>\<open>markdown\<close> passed along. An error raised in the callback
  ends the iteration and leaves the \<^verbatim>\<open>try\<close> block (\<open>Inl\<close> of its message).
\<close>

fun forEach_sheet :: "workbook \<Rightarrow> string list \<Rightarrow> string \<Rightarrow> string + string" where
  "forEach_sheet wb [] markdown = Inr markdown"
| "forEach_sheet wb (sheetName # names) markdown =
     (case sheet_json wb sheetName of
        Inl message \<Rightarrow> Inl message
      | Inr json \<Rightarrow>
          if length json > 0
          then forEach_sheet wb names
                 (markdown @ ''## Sheet: '' @ sheetName @ ''\<newline>\<newline>''
                    @ jsonToMarkdownTable json @ ''\<newline>\<newline>'')
          else forEach_sheet wb names markdown)"

definition convertXlsx :: "libs \<Rightarrow> buffer \<Rightarrow> error + string" where
  "convertXlsx L buffer =
     (case xlsx_read L buffer of
        Inr wb \<Rightarrow>
          (case forEach_sheet wb (SheetNames wb) [] of
             Inr markdown \<Rightarrow> Inr markdown
           | Inl message \<Rightarrow> Inl (Error (''XLSX conversion failed: '' @ message)))
      | Inl message \<Rightarrow> Inl (Error (''XLSX conversion failed: '' @ message)))"

definition convertCsv :: "libs \<Rightarrow> buffer \<Rightarrow> error + string" where
  "convertCsv L buffer =
     (case parse L buffer of
        Inr records \<Rightarrow> Inr (jsonToMarkdownTable records)
      | Inl message \<Rightarrow> Inl (Error (''CSV conversion failed: '' @ message)))"

section \<open>The dispatcher\<close>

text \<open>
  \<^verbatim>\<open>String.prototype.split\<close> with a one-character separator: the pieces between
  the separators, never an empty array.
\<close>

fun split :: "char \<Rightarrow> string \<Rightarrow> string list" where
  "split sep [] = [[]]"
| "split sep (c # cs) =
     (if c = sep then [] # split sep cs
      else (case split sep cs of
              [] \<Rightarrow> [[c]]
            | p # ps \<Rightarrow> (c # p) # ps))"

text \<open>
  \<^verbatim>\<open>Array.prototype.pop\<close> returns the last element, \<^verbatim>\<open>undefined\<close> for an
  empty array (\<open>None\<close>).
\<close>

fun pop :: "'a list \<Rightarrow> 'a option" where
  "pop [] = None"
| "pop [x] = Some x"
| "pop (x # y # xs) = pop (y # xs)"

text \<open>
  \<^verbatim>\<open>String.prototype.toLowerCase\<close> on code units below 256: the letters A to Z
  and the capital letters of Latin-1 (0xC0 to 0xDE without the multiplication sign 0xD7)
  move up by 32, everything else stays.
\<close>

definition toLowerCase_char :: "char \<Rightarrow> char" where
  "toLowerCase_char c =
     (let n = (of_char c :: nat)
      in if (65 \<le> n \<and> n \<le> 90) \<or> (192 \<le> n \<and> n \<le> 214) \<or> (216 \<le> n \<and> n \<le> 222)
         then char_of (n + 32) else c)"

definition toLowerCase :: "string \<Rightarrow> string" where
  "toLowerCase s = map toLowerCase_char s"

text \<open>
  What a call of \<^verbatim>\<open>convert\<close> did: the conversion routines the dispatcher invoked,
  in order, and the value returned (\<open>Inr\<close>) or the error thrown (\<open>Inl\<close>).
\<close>

datatype routine = Docx | Pdf | Xlsx | Csv

record conversion =
  invoked :: "routine list"
  outcome :: "error + string"

text \<open>
  \<^verbatim>\<open>const extension = originalName.split('.').pop().toLowerCase()\<close>; calling
  \<^verbatim>\<open>toLowerCase\<close> on \<^verbatim>\<open>undefined\<close> is a \<^verbatim>\<open>TypeError\<close>.
\<close>

definition extension_of :: "string \<Rightarrow> error + string" where
  "extension_of originalName =
     (case pop (split CHR ''.'' originalName) of
        None \<Rightarrow> Inl (Error ''Cannot read properties of undefined'')
      | Some s \<Rightarrow> Inr (toLowerCase s))"

definition convert :: "libs \<Rightarrow> buffer \<Rightarrow> string \<Rightarrow> string \<Rightarrow> conversion" where
  "convert L fileBuffer mimetype originalName =
     (case extension_of originalName of
        Inl e \<Rightarrow> \<lparr>invoked = [], outcome = Inl e\<rparr>
      | Inr extension \<Rightarrow>
          if extension = ''docx'' then \<lparr>invoked = [Docx], outcome = convertDocx L fileBuffer\<rparr>
          else if extension = ''pdf'' then \<lparr>invoked = [Pdf], outcome = convertPdf L fileBuffer\<rparr>
          else if extension = ''xlsx'' then \<lparr>invoked = [Xlsx], outcome = convertXlsx L fileBuffer\<rparr>
          else if extension = ''csv'' then \<lparr>invoked = [Csv], outcome = convertCsv L fileBuffer\<rparr>
          else \<lparr>invoked = [], outcome = Inl (Error (''Unsupported file type: '' @ extension))\<rparr>)"

section \<open>The renderer on a store of arrays\<close>

text \<open>
  JavaScript arrays are objects, passed by reference and mutable in place. To say what
  \<^verbatim>\<open>jsonToMarkdownTable\<close> does to the arrays it is given, the same code is modelled a
  second time over an explicit store: an address is an index into the list of allocated
  objects, an object is an array of cells or an array of references to row arrays, and
  allocation appends. \<open>None\<close> stands for a store without the arrays the code expects at
  the addresses it reads.
\<close>

type_synonym addr = nat

datatype obj = Cells row | Rows "addr list"

type_synonym heap = "obj list"

definition alloc :: "heap \<Rightarrow> obj \<Rightarrow> heap \<times> addr" where
  "alloc h ob = (h @ [ob], length h)"

definition cells_at :: "heap \<Rightarrow> addr \<Rightarrow> row option" where
  "cells_at h a =
     (if a < length h then (case h ! a of Cells cs \<Rightarrow> Some cs | Rows rs \<Rightarrow> None) else None)"

definition rows_at :: "heap \<Rightarrow> addr \<Rightarrow> addr list option" where
  "rows_at h a =
     (if a < length h then (case h ! a of Rows rs \<Rightarrow> Some rs | Cells cs \<Rightarrow> None) else None)"

text \<open>
  The \<^verbatim>\<open>while\<close> loop: both lengths are read from the store at every test, and
  \<^verbatim>\<open>paddedRow.push('')\<close> writes the array at the address \<open>paddedRow\<close> in place.
\<close>

function while_push_h :: "heap \<Rightarrow> addr \<Rightarrow> addr \<Rightarrow> heap option" where
  "while_push_h h paddedRow header =
     (case cells_at h paddedRow of
        None \<Rightarrow> None
      | Some p \<Rightarrow>
          (case cells_at h header of
             None \<Rightarrow> None
           | Some hc \<Rightarrow>
               if length p < length hc
               then while_push_h (h[paddedRow := Cells (p @ [Str []])]) paddedRow header
               else Some h))"
  by pat_completeness auto
termination
  by (relation "measure (\<lambda>(h, paddedRow, header).
        (case cells_at h header of None \<Rightarrow> 0 | Some hc \<Rightarrow> length hc) -
        (case cells_at h paddedRow of None \<Rightarrow> 0 | Some p \<Rightarrow> length p))")
     (auto simp: cells_at_def nth_list_update split: if_splits obj.splits)

text \<open>
  \<^verbatim>\<open>body.forEach\<close>: \<open>len\<close> is the length of \<open>body\<close> when the iteration starts,
  \<open>k\<close> the index; the element is read from the store when its turn comes, and
  \<^verbatim>\<open>[...row]\<close> allocates the copy.
\<close>

function forEach_row_h ::
  "heap \<Rightarrow> addr \<Rightarrow> addr \<Rightarrow> nat \<Rightarrow> nat \<Rightarrow> string \<Rightarrow> (heap \<times> string) option" where
  "forEach_row_h h body header k len markdown =
     (if k < len then
        (case rows_at h body of
           None \<Rightarrow> None
         | Some rs \<Rightarrow>
             if k < length rs then
               (case cells_at h (rs ! k) of
                  None \<Rightarrow> None
                | Some row \<Rightarrow>
                    (case alloc h (Cells (spread row)) of
                       (h1, paddedRow) \<Rightarrow>
                         (case while_push_h h1 paddedRow header of
                            None \<Rightarrow> None
                          | Some h2 \<Rightarrow>
                              (case cells_at h2 paddedRow of
                                 None \<Rightarrow> None
                               | Some p \<Rightarrow>
                                   forEach_row_h h2 body header (Suc k) len
                                     (markdown @ ''| '' @ join '' | '' p @ '' |\<newline>'')))))
             else forEach_row_h h body header (Suc k) len markdown)
      else Some (h, markdown))"
  by pat_completeness auto
termination
  by (relation "measure (\<lambda>(h, body, header, k, len, markdown). len - k)") auto

text \<open>
  \<^verbatim>\<open>jsonToMarkdownTable\<close> on the store: \<^verbatim>\<open>rows.slice(1)\<close> and
  \<^verbatim>\<open>header.map(...)\<close> allocate new arrays; the result is the store after the call
  and the string returned.
\<close>

definition jsonToMarkdownTable_h :: "heap \<Rightarrow> addr \<Rightarrow> (heap \<times> string) option" where
  "jsonToMarkdownTable_h h rows =
     (case rows_at h rows of
        None \<Rightarrow> None
      | Some rs \<Rightarrow>
          if length rs = 0 then Some (h, [])
          else
            (let header = rs ! 0
             in case alloc h (Rows (drop 1 rs)) of
                  (h1, body) \<Rightarrow>
                    (case cells_at h1 header of
                       None \<Rightarrow> None
                     | Some hc \<Rightarrow>
                         (let markdown = ''| '' @ join '' | '' hc @ '' |\<newline>''
                          in case alloc h1 (Cells (map_const ''---'' hc)) of
                               (h2, dashes) \<Rightarrow>
                                 (case cells_at h2 dashes of
                                    None \<Rightarrow> None
                                  | Some ds \<Rightarrow>
                                      (let markdown = markdown @ ''| '' @ join '' | '' ds @ '' |\<newline>''
                                       in case rows_at h2 body of
                                            None \<Rightarrow> None
                                          | Some b \<Rightarrow>
                                              forEach_row_h h2 body header 0 (length b) markdown))))))"

text \<open>
  The value of the argument: the rows that the array at \<open>rows\<close> refers to, each with its
  cells, when the store holds an array of row arrays there.
\<close>

definition rows_value :: "heap \<Rightarrow> addr \<Rightarrow> row list option" where
  "rows_value h rows =
     (case rows_at h rows of
        None \<Rightarrow> None
      | Some rs \<Rightarrow> those (map (cells_at h) rs))"

section \<open>The output in the words of the specification\<close>

text \<open>
  One rendered row: the cells joined with \<^verbatim>\<open>" | "\<close> between a leading
  \<^verbatim>\<open>"| "\<close> and a trailing \<^verbatim>\<open>" |"\<close>, ended by a line feed.
\<close>

definition render_line :: "row \<Rightarrow> string" where
  "render_line cells = ''| '' @ join '' | '' cells @ '' |\<newline>''"

text \<open>
  What one sheet contributes to the XLSX output: nothing when it has no row, otherwise the
  heading \<^verbatim>\<open>## Sheet: <name>\<close>, an empty line, its rows as a table and two line feeds.
\<close>

definition sheet_fragment :: "string \<Rightarrow> row list \<Rightarrow> string" where
  "sheet_fragment name rows =
     (if rows = [] then []
      else ''## Sheet: '' @ name @ ''\<newline>\<newline>''
             @ jsonToMarkdownTable rows @ ''\<newline>\<newline>'')"

section \<open>Library behaviours for the concrete instances\<close>

text \<open>
  \<^verbatim>\<open>parse(buffer, {skip_empty_lines: true})\<close> of \<^verbatim>\<open>csv-parse\<close> on input without
  quotes and carriage returns: the lines that are not empty, each cut at its commas.
\<close>

definition csv_parse_plain :: "buffer \<Rightarrow> string + row list" where
  "csv_parse_plain buffer =
     Inr (map (\<lambda>line. map Str (split CHR '','' line))
            (filter (\<lambda>line. line \<noteq> []) (split CHR 0x0A buffer)))"

text \<open>
  A workbook of three sheets: one with a short body row, one without rows, and one whose
  cell B1 is empty between A1 and C1.
\<close>

definition sample_grid :: "string \<Rightarrow> row list" where
  "sample_grid name =
     (if name = ''People'' then [[Str ''Name'', Str ''Age''], [Str ''Alice'']]
      else if name = ''Gaps'' then [[Str ''a'', Hole, Str ''c''], [Str ''1'', Str ''2'', Str ''3'']]
      else [])"

definition sample_workbook :: workbook where
  "sample_workbook =
     \<lparr>SheetNames = [''People'', ''Blank'', ''Gaps''],
      sheet_json = (\<lambda>name. Inr (sample_grid name))\<rparr>"

text \<open>A workbook whose second sheet cannot be turned into rows.\<close>

definition broken_workbook :: workbook where
  "broken_workbook =
     \<lparr>SheetNames = [''People'', ''Broken'', ''Gaps''],
      sheet_json = (\<lambda>name.
         if name = ''Broken'' then Inl ''unrecognized type q'' else Inr (sample_grid name))\<rparr>"

definition sample_libs :: libs where
  "sample_libs =
     \<lparr>mammoth_extractRawText = (\<lambda>buffer. Inr buffer),
      pdf = (\<lambda>buffer. Inr buffer),
      xlsx_read = (\<lambda>buffer. Inr sample_workbook),
      parse = csv_parse_plain\<rparr>"

definition broken_sheet_libs :: libs where
  "broken_sheet_libs = sample_libs\<lparr>xlsx_read := (\<lambda>buffer. Inr broken_workbook)\<rparr>"

text \<open>Libraries that reject every input, each with a message of its own.\<close>

definition failing_libs :: libs where
  "failing_libs =
     \<lparr>mammoth_extractRawText = (\<lambda>buffer. Inl ''Could not find the body element''),
      pdf = (\<lambda>buffer. Inl ''Invalid PDF structure''),
      xlsx_read = (\<lambda>buffer. Inl ''File is password-protected''),
      parse = (\<lambda>buffer. Inl ''Invalid Record Length'')\<rparr>"

text \<open>
  A store with a header row, a short row, an array of rows that refers to both of them
  twice, and an array the call has nothing to do with.
\<close>

definition sample_heap :: heap where
  "sample_heap =
     [Cells [Str ''Name'', Str ''Age'', Str ''City''],
      Cells [Str ''Alice''],
      Rows [0, 1, 1, 0],
      Cells [Str ''unrelated'']]"

section \<open>Properties of the renderer's loops\<close>

lemma while_push_replicate:
  "while_push paddedRow header =
     paddedRow @ replicate (length header - length paddedRow) (Str [])"
proof (induction paddedRow header rule: while_push.induct)
  case (1 paddedRow header)
  show ?case
  proof (cases "length paddedRow < length header")
    case True
    then have "length header - length paddedRow = Suc (length header - Suc (length paddedRow))"
      by simp
    with True 1 show ?thesis
      by (simp del: while_push.simps
            add: while_push.simps [of paddedRow header] replicate_app_Cons_same)
  next
    case False
    then show ?thesis by simp
  qed
qed

lemma forEach_row_concat:
  "forEach_row header body markdown =
     markdown @ concat (map (\<lambda>row. render_line (while_push (spread row) header)) body)"
  by (induction body arbitrary: markdown) (simp_all del: while_push.simps add: render_line_def)

lemma map_const_dense: "Hole \<notin> set r \<Longrightarrow> map_const s r = replicate (length r) (Str s)"
  unfolding map_const_def
proof (induction r)
  case Nil
  then show ?case by simp
next
  case (Cons c r)
  then show ?case by (cases c) simp_all
qed

lemma length_spread: "length (spread row) = length row"
  by (simp add: spread_def)

text \<open>
  When the header array has no hole, the output is the header line, one separator line of
  as many \<^verbatim>\<open>---\<close> cells as the header has, and one line for each body row in order,
  the row copied and filled up with empty strings to the length of the header, never cut.
\<close>

lemma jsonToMarkdownTable_dense_header:
  assumes "Hole \<notin> set header"
  shows "jsonToMarkdownTable (header # body) =
           render_line header
           @ render_line (replicate (length header) (Str ''---''))
           @ concat (map (\<lambda>row. render_line
                 (spread row @ replicate (length header - length row) (Str []))) body)"
  using assms
  by (simp del: while_push.simps
        add: forEach_row_concat while_push_replicate map_const_dense length_spread render_line_def)

lemma forEach_sheet_concat:
  "\<forall>name\<in>set names. sheet_json wb name = Inr (grid name) \<Longrightarrow>
     forEach_sheet wb names markdown
       = Inr (markdown @ concat (map (\<lambda>name. sheet_fragment name (grid name)) names))"
  by (induction names arbitrary: markdown) (simp_all add: sheet_fragment_def)

lemma forEach_sheet_raise:
  "\<forall>name\<in>set before. \<exists>rows. sheet_json wb name = Inr rows \<Longrightarrow>
     sheet_json wb sheetName = Inl message \<Longrightarrow>
     forEach_sheet wb (before @ sheetName # after) markdown = Inl message"
  by (induction before arbitrary: markdown) auto

section \<open>Properties of the extension\<close>

lemma split_not_Nil: "split sep s \<noteq> []"
  by (induction s) (auto split: list.splits)

lemma pop_last: "xs \<noteq> [] \<Longrightarrow> pop xs = Some (last xs)"
  by (induction xs rule: pop.induct) auto

lemma split_no_sep: "sep \<notin> set s \<Longrightarrow> split sep s = [s]"
  by (induction s) auto

lemma split_last_piece:
  "sep \<notin> set suf \<Longrightarrow> split sep (pre @ sep # suf) = split sep pre @ [suf]"
  by (induction pre) (auto simp: split_not_Nil split_no_sep split: list.splits)

text \<open>The \<^verbatim>\<open>TypeError\<close> branch is never taken: the extension is always computed.\<close>

lemma extension_of_total:
  "extension_of originalName = Inr (toLowerCase (last (split CHR ''.'' originalName)))"
  by (simp add: extension_of_def pop_last split_not_Nil)

lemma extension_of_dotted:
  "CHR ''.'' \<notin> set suf \<Longrightarrow> extension_of (pre @ CHR ''.'' # suf) = Inr (toLowerCase suf)"
  by (simp add: extension_of_total split_last_piece)

lemma extension_of_dotless:
  "CHR ''.'' \<notin> set name \<Longrightarrow> extension_of name = Inr (toLowerCase name)"
  by (simp add: extension_of_total split_no_sep)

section \<open>Properties of the store\<close>

lemma cells_at_append: "cells_at h a = Some cs \<Longrightarrow> cells_at (h @ xs) a = Some cs"
  by (auto simp: cells_at_def nth_append split: if_splits)

lemma rows_at_append: "rows_at h a = Some rs \<Longrightarrow> rows_at (h @ xs) a = Some rs"
  by (auto simp: rows_at_def nth_append split: if_splits)

lemma cells_at_fresh: "cells_at (h @ [Cells cs]) (length h) = Some cs"
  by (simp add: cells_at_def)

lemma rows_at_fresh: "rows_at (h @ [Rows rs]) (length h) = Some rs"
  by (simp add: rows_at_def)

lemma cells_at_bound: "cells_at h a = Some cs \<Longrightarrow> a < length h"
  by (simp add: cells_at_def split: if_splits)

lemma rows_at_bound: "rows_at h a = Some rs \<Longrightarrow> a < length h"
  by (simp add: rows_at_def split: if_splits)

lemma cells_at_update_same:
  "a < length h \<Longrightarrow> cells_at (h[a := Cells cs]) a = Some cs"
  by (simp add: cells_at_def)

lemma cells_at_update_other:
  "a \<noteq> b \<Longrightarrow> cells_at (h[a := ob]) b = cells_at h b"
  by (simp add: cells_at_def)

lemma update_cells_id: "cells_at h a = Some cs \<Longrightarrow> h[a := Cells cs] = h"
  by (auto simp: cells_at_def list_update_same_conv split: if_splits obj.splits)

lemma while_push_h_result:
  "cells_at h p = Some pc \<Longrightarrow> cells_at h header = Some hc \<Longrightarrow> p \<noteq> header \<Longrightarrow>
     while_push_h h p header = Some (h[p := Cells (while_push pc hc)])"
proof (induction pc hc arbitrary: h rule: while_push.induct)
  case (1 pc hc)
  show ?case
  proof (cases "length pc < length hc")
    case True
    let ?h = "h[p := Cells (pc @ [Str []])]"
    have a: "cells_at ?h p = Some (pc @ [Str []])"
      using 1(2) by (simp add: cells_at_update_same cells_at_bound)
    have b: "cells_at ?h header = Some hc"
      using 1(3,4) by (simp add: cells_at_update_other)
    have "while_push_h ?h p header = Some (?h[p := Cells (while_push (pc @ [Str []]) hc)])"
      using "1.IH" [OF True a b 1(4)] .
    then show ?thesis
      using True 1(2,3)
      by (simp del: while_push.simps while_push_h.simps
            add: while_push.simps [of pc hc] while_push_h.simps [of h p header])
  next
    case False
    then show ?thesis
      using 1(2,3)
      by (simp del: while_push_h.simps
            add: while_push_h.simps [of h p header] update_cells_id)
  qed
qed

lemma those_map_Some:
  "those (map f xs) = Some ys \<Longrightarrow>
     length ys = length xs \<and> (\<forall>i<length xs. f (xs ! i) = Some (ys ! i))"
proof (induction xs arbitrary: ys)
  case Nil
  then show ?case by simp
next
  case (Cons x xs)
  then obtain y ys' where y: "f x = Some y" "those (map f xs) = Some ys'" "ys = y # ys'"
    by (auto split: option.splits)
  from Cons.IH [OF y(2)] y show ?case
    by (auto simp: nth_Cons split: nat.splits)
qed

lemma those_map_append:
  "those (map (cells_at h) rs) = Some rv \<Longrightarrow> those (map (cells_at (h @ xs)) rs) = Some rv"
proof (induction rs arbitrary: rv)
  case Nil
  then show ?case by simp
next
  case (Cons r rs)
  then show ?case
    by (auto simp: cells_at_append split: option.splits)
qed

lemma forEach_row_h_result:
  assumes "length rv = length rs"
    and "len = length rs"
  shows "rows_at h body = Some rs \<Longrightarrow> cells_at h header = Some hc \<Longrightarrow>
     \<forall>i<length rs. cells_at h (rs ! i) = Some (rv ! i) \<Longrightarrow>
     \<exists>h'. forEach_row_h h body header k len markdown
            = Some (h', forEach_row hc (drop k rv) markdown)
         \<and> take (length h) h' = h"
proof (induction "len - k" arbitrary: h k markdown)
  case 0
  then have "\<not> k < len" by simp
  then show ?case
    using assms by (simp del: forEach_row_h.simps add: forEach_row_h.simps [of h body header k])
next
  case (Suc n)
  then have k: "k < len" "k < length rs" "k < length rv"
    using assms by simp_all
  let ?row = "rv ! k"
  let ?h1 = "h @ [Cells (spread ?row)]"
  let ?p = "length h"
  let ?padded = "while_push (spread ?row) hc"
  let ?h2 = "h @ [Cells ?padded]"
  have row: "cells_at h (rs ! k) = Some ?row"
    using Suc.prems(3) k by simp
  have neq: "?p \<noteq> header"
    using Suc.prems(2) cells_at_bound by blast
  have "while_push_h ?h1 ?p header = Some (?h1[?p := Cells ?padded])"
    by (rule while_push_h_result [OF cells_at_fresh cells_at_append [OF Suc.prems(2)] neq])
  then have w: "while_push_h ?h1 ?p header = Some ?h2"
    by simp
  have p2: "cells_at ?h2 ?p = Some ?padded"
    by (rule cells_at_fresh)
  have n: "n = len - Suc k"
    using Suc.hyps(2) by simp
  have inv: "\<forall>i<length rs. cells_at ?h2 (rs ! i) = Some (rv ! i)"
    using Suc.prems(3) by (simp add: cells_at_append)
  obtain h' where h':
    "forEach_row_h ?h2 body header (Suc k) len (markdown @ ''| '' @ join '' | '' ?padded @ '' |\<newline>'')
       = Some (h', forEach_row hc (drop (Suc k) rv)
                     (markdown @ ''| '' @ join '' | '' ?padded @ '' |\<newline>''))"
    "take (length ?h2) h' = ?h2"
    using Suc.hyps(1) [OF n rows_at_append [OF Suc.prems(1)] cells_at_append [OF Suc.prems(2)] inv]
    by blast
  have step: "forEach_row_h h body header k len markdown
      = forEach_row_h ?h2 body header (Suc k) len (markdown @ ''| '' @ join '' | '' ?padded @ '' |\<newline>'')"
    using k row w p2 Suc.prems(1)
    by (simp del: forEach_row_h.simps while_push_h.simps while_push.simps
          add: forEach_row_h.simps [of h body header k] alloc_def)
  have pure: "forEach_row hc (drop k rv) markdown
      = forEach_row hc (drop (Suc k) rv) (markdown @ ''| '' @ join '' | '' ?padded @ '' |\<newline>'')"
    using k by (simp del: while_push.simps add: Cons_nth_drop_Suc [symmetric])
  have "take (length h) h' = take (length h) (take (length ?h2) h')"
    by (simp add: min_def)
  also have "\<dots> = h"
    using h'(2) by simp
  finally have "take (length h) h' = h" .
  with h'(1) step pure show ?case
    by simp
qed

section \<open>The claims\<close>

text \<open>
  C1. For every non-empty sequence of rows the output is the header row, one separator row
  with a \<^verbatim>\<open>---\<close> cell for every header column, and one padded, never cut line for
  each body row. The code falls short of this on a header array with a hole, which the
  spreadsheet reader returns for an empty header cell between two filled ones:
  \<^verbatim>\<open>map\<close> leaves the hole in place, and the separator row has an empty cell where
  \<^verbatim>\<open>---\<close> is due. (\<open>jsonToMarkdownTable_dense_header\<close> has the claimed shape for
  every header without a hole.)
\<close>

theorem jsonToMarkdownTable_sparse_header:
  "jsonToMarkdownTable [[Str ''a'', Hole, Str ''c''], [Str ''1'', Str ''2'', Str ''3'']]
     = ''| a |  | c |\<newline>| --- |  | --- |\<newline>| 1 | 2 | 3 |\<newline>''"
  by (simp add: map_const_def spread_def)

text \<open>
  C2. Converting the CSV bytes \<^verbatim>\<open>Name,Age,City\nAlice,30,New York\n\<close> under a file name
  with the extension \<^verbatim>\<open>csv\<close> returns exactly the three lines
  \<^verbatim>\<open>| Name | Age | City |\<close>, \<^verbatim>\<open>| --- | --- | --- |\<close> and
  \<^verbatim>\<open>| Alice | 30 | New York |\<close>, given that the CSV parser reads the bytes as the two
  records of three fields.
\<close>

theorem convert_csv_example:
  assumes "parse L ''Name,Age,City\<newline>Alice,30,New York\<newline>''
             = Inr [[Str ''Name'', Str ''Age'', Str ''City''],
                    [Str ''Alice'', Str ''30'', Str ''New York'']]"
    and "extension_of originalName = Inr ''csv''"
  shows "convert L ''Name,Age,City\<newline>Alice,30,New York\<newline>'' mimetype originalName
           = \<lparr>invoked = [Csv],
              outcome = Inr ''| Name | Age | City |\<newline>| --- | --- | --- |\<newline>| Alice | 30 | New York |\<newline>''\<rparr>"
  using assms by (simp add: convert_def convertCsv_def map_const_def spread_def)

theorem convert_csv_example_witness:
  "parse sample_libs ''Name,Age,City\<newline>Alice,30,New York\<newline>''
     = Inr [[Str ''Name'', Str ''Age'', Str ''City''],
            [Str ''Alice'', Str ''30'', Str ''New York'']]
   \<and> extension_of ''test.csv'' = Inr ''csv''
   \<and> convert sample_libs ''Name,Age,City\<newline>Alice,30,New York\<newline>'' ''text/csv'' ''test.csv''
       = \<lparr>invoked = [Csv],
          outcome = Inr ''| Name | Age | City |\<newline>| --- | --- | --- |\<newline>| Alice | 30 | New York |\<newline>''\<rparr>"
proof -
  have a: "parse sample_libs ''Name,Age,City\<newline>Alice,30,New York\<newline>''
             = Inr [[Str ''Name'', Str ''Age'', Str ''City''],
                    [Str ''Alice'', Str ''30'', Str ''New York'']]"
    by code_simp
  have b: "extension_of ''test.csv'' = Inr ''csv''"
    by code_simp
  from a b convert_csv_example [OF a b, of "''text/csv''"] show ?thesis
    by blast
qed

text \<open>
  C3, as the code has it. The dispatcher has no routine for TXT: for every file name whose
  text after the last dot is \<^verbatim>\<open>txt\<close> in any letter case, \<^verbatim>\<open>convert\<close> invokes no
  routine and fails with the message \<^verbatim>\<open>Unsupported file type: txt\<close>.
\<close>

theorem convert_txt_unsupported:
  assumes "CHR ''.'' \<notin> set suf"
    and "toLowerCase suf = ''txt''"
  shows "convert L fileBuffer mimetype (pre @ CHR ''.'' # suf)
           = \<lparr>invoked = [], outcome = Inl (Error ''Unsupported file type: txt'')\<rparr>"
  using assms by (simp add: convert_def extension_of_dotted)

theorem convert_txt_unsupported_witness:
  "CHR ''.'' \<notin> set ''TXT''
   \<and> toLowerCase ''TXT'' = ''txt''
   \<and> convert sample_libs ''Title'' ''text/plain'' ''my.notes.TXT''
       = \<lparr>invoked = [], outcome = Inl (Error ''Unsupported file type: txt'')\<rparr>"
proof -
  have a: "CHR ''.'' \<notin> set ''TXT''"
    by simp
  have b: "toLowerCase ''TXT'' = ''txt''"
    by code_simp
  have "convert sample_libs ''Title'' ''text/plain'' (''my.notes'' @ CHR ''.'' # ''TXT'')
          = \<lparr>invoked = [], outcome = Inl (Error ''Unsupported file type: txt'')\<rparr>"
    by (rule convert_txt_unsupported [OF a b])
  with a b show ?thesis
    by simp
qed

text \<open>
  C3, as the claim states it (a name ending in \<^verbatim>\<open>.txt\<close> yields a Markdown string),
  fails: the text file \<^verbatim>\<open>notes.txt\<close> is refused as an unsupported file type.
\<close>

theorem convert_txt_counterexample:
  "convert sample_libs ''Title'' ''text/plain'' ''notes.txt''
     = \<lparr>invoked = [], outcome = Inl (Error ''Unsupported file type: txt'')\<rparr>"
  by code_simp

text \<open>
  C4. For every file name whose lower-cased text after the last dot is none of
  \<^verbatim>\<open>docx\<close>, \<^verbatim>\<open>pdf\<close>, \<^verbatim>\<open>xlsx\<close>, \<^verbatim>\<open>csv\<close>, \<^verbatim>\<open>convert\<close> invokes no
  conversion routine and fails with \<^verbatim>\<open>Unsupported file type: \<close> followed by that
  lower-cased text, whatever the libraries would do.
\<close>

theorem convert_unknown_extension:
  assumes "CHR ''.'' \<notin> set suf"
    and "toLowerCase suf \<notin> {''docx'', ''pdf'', ''xlsx'', ''csv''}"
  shows "convert L fileBuffer mimetype (pre @ CHR ''.'' # suf)
           = \<lparr>invoked = [],
              outcome = Inl (Error (''Unsupported file type: '' @ toLowerCase suf))\<rparr>"
  using assms by (simp add: convert_def extension_of_dotted)

theorem convert_unknown_extension_witness:
  "CHR ''.'' \<notin> set ''XyZ''
   \<and> toLowerCase ''XyZ'' \<notin> {''docx'', ''pdf'', ''xlsx'', ''csv''}
   \<and> convert sample_libs ''data'' ''application/octet-stream'' ''file.XyZ''
       = \<lparr>invoked = [], outcome = Inl (Error ''Unsupported file type: xyz'')\<rparr>"
proof -
  have a: "CHR ''.'' \<notin> set ''XyZ''"
    by simp
  have l: "toLowerCase ''XyZ'' = ''xyz''"
    by code_simp
  have b: "toLowerCase ''XyZ'' \<notin> {''docx'', ''pdf'', ''xlsx'', ''csv''}"
    by (simp add: l)
  have "convert sample_libs ''data'' ''application/octet-stream'' (''file'' @ CHR ''.'' # ''XyZ'')
          = \<lparr>invoked = [],
             outcome = Inl (Error (''Unsupported file type: '' @ toLowerCase ''XyZ''))\<rparr>"
    by (rule convert_unknown_extension [OF a b])
  with a b show ?thesis
    by (simp add: l)
qed

text \<open>
  C5. For every workbook the XLSX routine goes through the sheets in document order and
  returns their contributions one after the other: a sheet with no row adds nothing, a
  sheet with rows adds once the heading \<^verbatim>\<open>## Sheet: <name>\<close> followed by its rows
  rendered as a table. Here \<open>grid name\<close> is the array of rows that the spreadsheet
  reader returns for the sheet \<open>name\<close>.
\<close>

theorem convertXlsx_sheets:
  assumes "xlsx_read L buffer = Inr wb"
    and "\<forall>name\<in>set (SheetNames wb). sheet_json wb name = Inr (grid name)"
  shows "convertXlsx L buffer
           = Inr (concat (map (\<lambda>name. sheet_fragment name (grid name)) (SheetNames wb)))"
  using assms(1) forEach_sheet_concat [OF assms(2), of "[]"]
  by (simp add: convertXlsx_def)

theorem convertXlsx_sheets_witness:
  "xlsx_read sample_libs ''PK'' = Inr sample_workbook
   \<and> SheetNames sample_workbook = [''People'', ''Blank'', ''Gaps'']
   \<and> sheet_json sample_workbook ''People'' = Inr [[Str ''Name'', Str ''Age''], [Str ''Alice'']]
   \<and> sheet_json sample_workbook ''Blank'' = Inr []
   \<and> sheet_json sample_workbook ''Gaps''
       = Inr [[Str ''a'', Hole, Str ''c''], [Str ''1'', Str ''2'', Str ''3'']]
   \<and> convertXlsx sample_libs ''PK''
       = Inr ''## Sheet: People\<newline>\<newline>| Name | Age |\<newline>| --- | --- |\<newline>| Alice |  |\<newline>\<newline>\<newline>## Sheet: Gaps\<newline>\<newline>| a |  | c |\<newline>| --- |  | --- |\<newline>| 1 | 2 | 3 |\<newline>\<newline>\<newline>''"
proof -
  have a: "xlsx_read sample_libs ''PK'' = Inr sample_workbook"
    by (simp add: sample_libs_def)
  have b: "\<forall>name\<in>set (SheetNames sample_workbook).
             sheet_json sample_workbook name = Inr (sample_grid name)"
    by (simp add: sample_workbook_def)
  have e: "concat (map (\<lambda>name. sheet_fragment name (sample_grid name)) (SheetNames sample_workbook))
             = ''## Sheet: People\<newline>\<newline>| Name | Age |\<newline>| --- | --- |\<newline>| Alice |  |\<newline>\<newline>\<newline>## Sheet: Gaps\<newline>\<newline>| a |  | c |\<newline>| --- |  | --- |\<newline>| 1 | 2 | 3 |\<newline>\<newline>\<newline>''"
    by code_simp
  have c: "SheetNames sample_workbook = [''People'', ''Blank'', ''Gaps'']"
    "sheet_json sample_workbook ''People'' = Inr [[Str ''Name'', Str ''Age''], [Str ''Alice'']]"
    "sheet_json sample_workbook ''Blank'' = Inr []"
    "sheet_json sample_workbook ''Gaps''
       = Inr [[Str ''a'', Hole, Str ''c''], [Str ''1'', Str ''2'', Str ''3'']]"
    by (simp_all add: sample_workbook_def sample_grid_def)
  have d: "convertXlsx sample_libs ''PK''
       = Inr ''## Sheet: People\<newline>\<newline>| Name | Age |\<newline>| --- | --- |\<newline>| Alice |  |\<newline>\<newline>\<newline>## Sheet: Gaps\<newline>\<newline>| a |  | c |\<newline>| --- |  | --- |\<newline>| 1 | 2 | 3 |\<newline>\<newline>\<newline>''"
    using convertXlsx_sheets [OF a b] by (simp only: e)
  show ?thesis
    by (rule conjI a c d)+
qed

text \<open>
  C6. No rows give the empty string: the renderer returns \<^verbatim>\<open>''\<close> on the empty
  sequence, and \<^verbatim>\<open>convert\<close> returns \<^verbatim>\<open>''\<close> for CSV input that the parser reads
  as no record at all.
\<close>

theorem empty_rows_empty_string:
  "jsonToMarkdownTable [] = []
   \<and> (extension_of originalName = Inr ''csv'' \<and> parse L fileBuffer = Inr []
        \<longrightarrow> convert L fileBuffer mimetype originalName = \<lparr>invoked = [Csv], outcome = Inr []\<rparr>)"
  by (simp add: convert_def convertCsv_def)

theorem empty_rows_empty_string_witness:
  "extension_of ''empty.csv'' = Inr ''csv''
   \<and> parse sample_libs ''\<newline>\<newline>'' = Inr []
   \<and> jsonToMarkdownTable [] = []
   \<and> convert sample_libs ''\<newline>\<newline>'' ''text/csv'' ''empty.csv''
       = \<lparr>invoked = [Csv], outcome = Inr []\<rparr>"
proof -
  have a: "extension_of ''empty.csv'' = Inr ''csv''"
    by code_simp
  have b: "parse sample_libs ''\<newline>\<newline>'' = Inr []"
    by code_simp
  from a b empty_rows_empty_string [of "''empty.csv''" sample_libs "''\<newline>\<newline>''" "''text/csv''"]
  show ?thesis
    by blast
qed

text \<open>
  C7. The declared MIME type has no part in the result: for the same buffer and file name,
  any two MIME types give the same routine, the same string or the same error.
\<close>

theorem convert_ignores_mimetype:
  "convert L fileBuffer m1 originalName = convert L fileBuffer m2 originalName"
  by (simp add: convert_def)

theorem convert_ignores_mimetype_witness:
  "convert sample_libs ''a,b\<newline>1,2\<newline>'' ''text/csv'' ''table.csv''
     = convert sample_libs ''a,b\<newline>1,2\<newline>'' ''application/pdf'' ''table.csv''"
  by (rule convert_ignores_mimetype)

text \<open>
  C8. When the parser behind the routine that the extension selects raises, \<^verbatim>\<open>convert\<close>
  fails with one error whose message ends with the parser's own message, unchanged, after
  the prefix of the format; the outcome is that error and no string. The last part is the
  spreadsheet reader raising on a sheet after other sheets have been rendered: what was
  rendered so far is dropped.
\<close>

theorem convert_parser_failure:
  "(extension_of originalName = Inr ''docx'' \<and> mammoth_extractRawText L fileBuffer = Inl message
      \<longrightarrow> convert L fileBuffer mimetype originalName
            = \<lparr>invoked = [Docx], outcome = Inl (Error (''DOCX conversion failed: '' @ message))\<rparr>)
   \<and> (extension_of originalName = Inr ''pdf'' \<and> pdf L fileBuffer = Inl message
      \<longrightarrow> convert L fileBuffer mimetype originalName
            = \<lparr>invoked = [Pdf], outcome = Inl (Error (''PDF conversion failed: '' @ message))\<rparr>)
   \<and> (extension_of originalName = Inr ''xlsx'' \<and> xlsx_read L fileBuffer = Inl message
      \<longrightarrow> convert L fileBuffer mimetype originalName
            = \<lparr>invoked = [Xlsx], outcome = Inl (Error (''XLSX conversion failed: '' @ message))\<rparr>)
   \<and> (extension_of originalName = Inr ''csv'' \<and> parse L fileBuffer = Inl message
      \<longrightarrow> convert L fileBuffer mimetype originalName
            = \<lparr>invoked = [Csv], outcome = Inl (Error (''CSV conversion failed: '' @ message))\<rparr>)
   \<and> (extension_of originalName = Inr ''xlsx'' \<and> xlsx_read L fileBuffer = Inr wb
        \<and> SheetNames wb = before @ sheetName # after
        \<and> (\<forall>name\<in>set before. \<exists>rows. sheet_json wb name = Inr rows)
        \<and> sheet_json wb sheetName = Inl message
      \<longrightarrow> convert L fileBuffer mimetype originalName
            = \<lparr>invoked = [Xlsx], outcome = Inl (Error (''XLSX conversion failed: '' @ message))\<rparr>)"
  by (simp add: convert_def convertDocx_def convertPdf_def convertXlsx_def convertCsv_def
        forEach_sheet_raise)

theorem convert_parser_failure_witness:
  "convert failing_libs ''x'' ''m'' ''a.docx''
     = \<lparr>invoked = [Docx],
        outcome = Inl (Error (''DOCX conversion failed: '' @ ''Could not find the body element''))\<rparr>
   \<and> convert failing_libs ''x'' ''m'' ''a.pdf''
     = \<lparr>invoked = [Pdf],
        outcome = Inl (Error (''PDF conversion failed: '' @ ''Invalid PDF structure''))\<rparr>
   \<and> convert failing_libs ''x'' ''m'' ''a.xlsx''
     = \<lparr>invoked = [Xlsx],
        outcome = Inl (Error (''XLSX conversion failed: '' @ ''File is password-protected''))\<rparr>
   \<and> convert failing_libs ''x'' ''m'' ''a.csv''
     = \<lparr>invoked = [Csv],
        outcome = Inl (Error (''CSV conversion failed: '' @ ''Invalid Record Length''))\<rparr>
   \<and> convert broken_sheet_libs ''x'' ''m'' ''a.xlsx''
     = \<lparr>invoked = [Xlsx],
        outcome = Inl (Error (''XLSX conversion failed: '' @ ''unrecognized type q''))\<rparr>"
proof -
  have e: "extension_of ''a.docx'' = Inr ''docx''" "extension_of ''a.pdf'' = Inr ''pdf''"
    "extension_of ''a.xlsx'' = Inr ''xlsx''" "extension_of ''a.csv'' = Inr ''csv''"
    by code_simp+
  have f: "mammoth_extractRawText failing_libs ''x'' = Inl ''Could not find the body element''"
    "pdf failing_libs ''x'' = Inl ''Invalid PDF structure''"
    "xlsx_read failing_libs ''x'' = Inl ''File is password-protected''"
    "parse failing_libs ''x'' = Inl ''Invalid Record Length''"
    by (simp_all add: failing_libs_def)
  have d: "convert failing_libs ''x'' ''m'' ''a.docx''
     = \<lparr>invoked = [Docx],
        outcome = Inl (Error (''DOCX conversion failed: '' @ ''Could not find the body element''))\<rparr>"
    by (rule convert_parser_failure [THEN conjunct1, THEN mp, OF conjI, OF e(1) f(1)])
  have p: "convert failing_libs ''x'' ''m'' ''a.pdf''
     = \<lparr>invoked = [Pdf],
        outcome = Inl (Error (''PDF conversion failed: '' @ ''Invalid PDF structure''))\<rparr>"
    by (rule convert_parser_failure
          [THEN conjunct2, THEN conjunct1, THEN mp, OF conjI, OF e(2) f(2)])
  have x: "convert failing_libs ''x'' ''m'' ''a.xlsx''
     = \<lparr>invoked = [Xlsx],
        outcome = Inl (Error (''XLSX conversion failed: '' @ ''File is password-protected''))\<rparr>"
    by (rule convert_parser_failure
          [THEN conjunct2, THEN conjunct2, THEN conjunct1, THEN mp, OF conjI, OF e(3) f(3)])
  have c: "convert failing_libs ''x'' ''m'' ''a.csv''
     = \<lparr>invoked = [Csv],
        outcome = Inl (Error (''CSV conversion failed: '' @ ''Invalid Record Length''))\<rparr>"
    by (rule convert_parser_failure
          [THEN conjunct2, THEN conjunct2, THEN conjunct2, THEN conjunct1, THEN mp, OF conjI,
           OF e(4) f(4)])
  have g: "xlsx_read broken_sheet_libs ''x'' = Inr broken_workbook"
    by (simp add: broken_sheet_libs_def)
  have n: "SheetNames broken_workbook = [''People''] @ ''Broken'' # [''Gaps'']"
    by (simp add: broken_workbook_def)
  have o: "\<forall>name\<in>set [''People'']. \<exists>rows. sheet_json broken_workbook name = Inr rows"
    by (simp add: broken_workbook_def)
  have r: "sheet_json broken_workbook ''Broken'' = Inl ''unrecognized type q''"
    by (simp add: broken_workbook_def)
  have s: "convert broken_sheet_libs ''x'' ''m'' ''a.xlsx''
     = \<lparr>invoked = [Xlsx],
        outcome = Inl (Error (''XLSX conversion failed: '' @ ''unrecognized type q''))\<rparr>"
    by (rule convert_parser_failure
          [THEN conjunct2, THEN conjunct2, THEN conjunct2, THEN conjunct2, THEN mp])
       (intro conjI, rule e(3), rule g, rule n, rule o, rule r)
  show ?thesis
    by (rule conjI d p x c s)+
qed

text \<open>
  C9. The renderer leaves its argument as it found it: when the store holds an array of row
  arrays at \<open>rows\<close>, the call returns the string of the renderer for the value of
  that argument, every object that was in the store before the call is the same after it,
  and so the rows array and every row in it have the value they had. What the call writes
  (the padding too) goes to arrays it has allocated itself.
\<close>

theorem jsonToMarkdownTable_h_frame:
  assumes "rows_value h rows = Some rv"
  shows "\<exists>h'. jsonToMarkdownTable_h h rows = Some (h', jsonToMarkdownTable rv)
           \<and> take (length h) h' = h
           \<and> rows_value h' rows = Some rv"
proof -
  from assms obtain rs where rs: "rows_at h rows = Some rs" "those (map (cells_at h) rs) = Some rv"
    by (auto simp: rows_value_def split: option.splits)
  from those_map_Some [OF rs(2)]
  have len: "length rv = length rs" and cells: "\<forall>i<length rs. cells_at h (rs ! i) = Some (rv ! i)"
    by simp_all
  show ?thesis
  proof (cases rs)
    case Nil
    with rs len assms show ?thesis
      by (simp add: jsonToMarkdownTable_h_def)
  next
    case (Cons header body)
    with len obtain hc rb where rv: "rv = hc # rb"
      by (cases rv) auto
    let ?h1 = "h @ [Rows body]"
    let ?h2 = "?h1 @ [Cells (map_const ''---'' hc)]"
    let ?md = "''| '' @ join '' | '' hc @ '' |\<newline>'' @ ''| '' @ join '' | '' (map_const ''---'' hc) @ '' |\<newline>''"
    have hdr: "cells_at h header = Some hc"
      using cells Cons rv by auto
    have b: "rows_at ?h2 (length h) = Some body"
      by (rule rows_at_append [OF rows_at_fresh])
    have lenb: "length rb = length body"
      using len Cons rv by simp
    have inv: "\<forall>i<length body. cells_at ?h2 (body ! i) = Some (rb ! i)"
    proof (intro allI impI)
      fix i assume "i < length body"
      then have "Suc i < length rs"
        using Cons by simp
      with cells have "cells_at h (rs ! Suc i) = Some (rv ! Suc i)"
        by blast
      then show "cells_at ?h2 (body ! i) = Some (rb ! i)"
        using Cons rv by (simp add: cells_at_append)
    qed
    have hdr2: "cells_at ?h2 header = Some hc"
      using hdr by (simp add: cells_at_append)
    obtain h' where h':
      "forEach_row_h ?h2 (length h) header 0 (length body) ?md = Some (h', forEach_row hc (drop 0 rb) ?md)"
      "take (length ?h2) h' = ?h2"
      using forEach_row_h_result [OF lenb refl b hdr2 inv, of 0 ?md] by blast
    have d: "cells_at ?h2 (Suc (length h)) = Some (map_const ''---'' hc)"
      by (simp add: cells_at_def nth_append)
    have run: "jsonToMarkdownTable_h h rows = forEach_row_h ?h2 (length h) header 0 (length body) ?md"
      using rs(1) Cons hdr b d
      by (simp del: forEach_row_h.simps
            add: jsonToMarkdownTable_h_def alloc_def cells_at_append cells_at_fresh Let_def)
    have "take (length h) h' = take (length h) (take (length ?h2) h')"
      by (simp add: min_def)
    also have "\<dots> = h"
      using h'(2) by simp
    finally have frame: "take (length h) h' = h" .
    then obtain zs where zs: "h' = h @ zs"
      by (metis append_take_drop_id)
    have "rows_value h' rows = Some rv"
      using rs zs by (simp add: rows_value_def rows_at_append those_map_append)
    with run h'(1) frame rv show ?thesis
      by (simp add: Let_def)
  qed
qed

theorem jsonToMarkdownTable_h_frame_witness:
  "rows_value sample_heap 2
     = Some [[Str ''Name'', Str ''Age'', Str ''City''], [Str ''Alice''], [Str ''Alice''],
             [Str ''Name'', Str ''Age'', Str ''City'']]
   \<and> (\<exists>h'. jsonToMarkdownTable_h sample_heap 2
              = Some (h', jsonToMarkdownTable
                  [[Str ''Name'', Str ''Age'', Str ''City''], [Str ''Alice''], [Str ''Alice''],
                   [Str ''Name'', Str ''Age'', Str ''City'']])
            \<and> take (length sample_heap) h' = sample_heap
            \<and> rows_value h' 2
                = Some [[Str ''Name'', Str ''Age'', Str ''City''], [Str ''Alice''], [Str ''Alice''],
                        [Str ''Name'', Str ''Age'', Str ''City'']])"
proof -
  have a: "rows_value sample_heap 2
             = Some [[Str ''Name'', Str ''Age'', Str ''City''], [Str ''Alice''], [Str ''Alice''],
                     [Str ''Name'', Str ''Age'', Str ''City'']]"
    by code_simp
  from a jsonToMarkdownTable_h_frame [OF a] show ?thesis
    by blast
qed

text \<open>
  C10. A file name without a dot is its own extension, lower-cased: the name
  \<^verbatim>\<open>csv\<close> goes to the CSV routine, and the name \<^verbatim>\<open>README\<close> fails as the
  unsupported file type \<^verbatim>\<open>readme\<close>.
\<close>

theorem convert_dotless_name:
  "(CHR ''.'' \<notin> set originalName \<longrightarrow> extension_of originalName = Inr (toLowerCase originalName))
   \<and> convert L fileBuffer mimetype ''csv'' = \<lparr>invoked = [Csv], outcome = convertCsv L fileBuffer\<rparr>
   \<and> convert L fileBuffer mimetype ''README''
       = \<lparr>invoked = [], outcome = Inl (Error ''Unsupported file type: readme'')\<rparr>"
proof -
  have a: "extension_of ''csv'' = Inr ''csv''"
    by code_simp
  have b: "extension_of ''README'' = Inr ''readme''"
    by code_simp
  show ?thesis
    by (simp add: convert_def a b extension_of_dotless)
qed

theorem convert_dotless_name_witness:
  "CHR ''.'' \<notin> set ''Makefile''
   \<and> extension_of ''Makefile'' = Inr (toLowerCase ''Makefile'')
   \<and> convert sample_libs ''a,b\<newline>'' ''text/csv'' ''csv''
       = \<lparr>invoked = [Csv], outcome = convertCsv sample_libs ''a,b\<newline>''\<rparr>
   \<and> convert sample_libs ''a,b\<newline>'' ''text/csv'' ''README''
       = \<lparr>invoked = [], outcome = Inl (Error ''Unsupported file type: readme'')\<rparr>"
proof -
  have a: "CHR ''.'' \<notin> set ''Makefile''"
    by simp
  from a convert_dotless_name [of "''Makefile''" sample_libs "''a,b\<newline>''" "''text/csv''"]
  show ?thesis
    by blast
qed

end
